theory Spec2Isabelle
  imports Main
begin

section \<open>Data model\<close>

text \<open>
  Modelled from the spec: the declarations of \<open>models/models.ts\<close> (the shapes
  \<open>IdempotencyRequest\<close>, \<open>IdempotencyResponse\<close> and \<open>IdempotencyResource\<close>) are not
  among the sources; the records below follow section 3 of the specification and the
  object literals the tests build. A header object is a finite map from header
  names to values, a body is its text, and \<open>statusCode\<close> is a number or \<open>undefined\<close>
  (the tests store a response with \<open>statusCode: undefined\<close>).
\<close>

type_synonym headers = "string \<rightharpoonup> string"

record IdempotencyRequest =
  url :: string
  "method" :: string
  headers :: headers
  body :: string
  query :: "(string \<times> string) list"

record IdempotencyResponse =
  statusCode :: "int option"
  resp_headers :: headers
  resp_body :: string

record IdempotencyResource =
  idempotencyKey :: string
  request :: IdempotencyRequest
  response :: "IdempotencyResponse option"

text \<open>
  The errors: \<open>Duplicate\<close> is the adapter's \<open>new Error('Duplicate')\<close>; \<open>Conflict\<close> (a
  previous request is still in progress) and \<open>Misuse\<close> (the key was used for another
  request) are the two errors of section 7 that the coordinator hands to the
  continuation.
\<close>

datatype error = Duplicate | Conflict | Misuse

section \<open>The in-memory data adapter\<close>

text \<open>
  \<open>InMemoryDataAdapter\<close> keeps one private field, a \<open>Map<string, IdempotencyResource>\<close>.
  The model passes that map explicitly. Each method is \<open>async\<close> and either resolves or
  rejects: the first component of a result is \<open>Inl\<close> of the error for a rejection and
  \<open>Inr\<close> of the value for a resolution, the second component (for the methods that
  write) is the map as the method leaves it. No method awaits anything, so each runs
  from its first statement to its last without another call in between.
\<close>

type_synonym store = "string \<rightharpoonup> IdempotencyResource"

definition findByIdempotencyKey :: "store \<Rightarrow> string \<Rightarrow> error + IdempotencyResource option" where
  "findByIdempotencyKey idempotencyResources key = Inr (idempotencyResources key)"

definition create :: "store \<Rightarrow> IdempotencyResource \<Rightarrow> (error + unit) \<times> store" where
  "create idempotencyResources idempotencyResource =
     (if idempotencyKey idempotencyResource \<in> dom idempotencyResources
      then (Inl Duplicate, idempotencyResources)
      else (Inr (),
            idempotencyResources(idempotencyKey idempotencyResource \<mapsto> idempotencyResource)))"

definition update :: "store \<Rightarrow> IdempotencyResource \<Rightarrow> (error + unit) \<times> store" where
  "update idempotencyResources idempotencyResource =
     (Inr (), idempotencyResources(idempotencyKey idempotencyResource \<mapsto> idempotencyResource))"

definition delete :: "store \<Rightarrow> string \<Rightarrow> (error + unit) \<times> store" where
  "delete idempotencyResources key = (Inr (), idempotencyResources(key := None))"

text \<open>
  A history of calls on one adapter, to speak about keys that were never written: the
  adapter starts with \<open>new Map()\<close> and each call leaves the map to the next.
\<close>

datatype operation = Create IdempotencyResource | Update IdempotencyResource | Delete string

fun perform :: "store \<Rightarrow> operation \<Rightarrow> store" where
  "perform s (Create r) = snd (create s r)"
| "perform s (Update r) = snd (update s r)"
| "perform s (Delete k) = snd (delete s k)"

fun writes :: "string \<Rightarrow> operation \<Rightarrow> bool" where
  "writes k (Create r) = (idempotencyKey r = k)"
| "writes k (Update r) = (idempotencyKey r = k)"
| "writes k (Delete k') = False"

definition history :: "operation list \<Rightarrow> store" where
  "history ops = foldl perform Map.empty ops"

section \<open>Header filters\<close>

text \<open>
  Modelled from the spec: the header filter module is not among the sources. Matching
  is case-insensitive (section 4.3); header names are ASCII, so lower-casing maps
  \<open>A\<close>..\<open>Z\<close> to \<open>a\<close>..\<open>z\<close> and leaves every other character.
\<close>

definition lowerChar :: "char \<Rightarrow> char" where
  "lowerChar c =
     (if (65::nat) \<le> of_char c \<and> of_char c \<le> (90::nat)
      then char_of (of_char c + (32::nat)) else c)"

definition toLowerCase :: "string \<Rightarrow> string" where
  "toLowerCase name = map lowerChar name"

text \<open>
  Modelled from the spec: "starts with one of the prefixes" (section 4.3); the filter
  module is not among the sources.
\<close>

definition startsWith :: "string \<Rightarrow> string \<Rightarrow> bool" where
  "startsWith name p = (take (length p) name = p)"

text \<open>
  Modelled from the spec: the exact-match denylist and the name prefixes of the
  request-header redaction (section 4.3); the filter module is not among the sources.
\<close>

definition SENSITIVE_HEADERS :: "string list" where
  "SENSITIVE_HEADERS =
     [''authorization'', ''proxy-authorization'', ''cookie'', ''set-cookie'',
      ''x-auth-token'', ''x-csrf-token'', ''x-xsrf-token'', ''x-api-key'']"

definition SENSITIVE_HEADER_PREFIXES :: "string list" where
  "SENSITIVE_HEADER_PREFIXES = [''x-auth-'', ''x-token-'', ''x-secret-'', ''x-key-'']"

text \<open>
  Modelled from the spec: the request-header redaction (section 4.3), "case-insensitive
  removal of an exact-match denylist, union with any header whose name starts with one
  of the case-insensitive prefixes; all other headers are preserved verbatim"; the
  filter module is not among the sources.
\<close>

definition isSensitiveHeader :: "string \<Rightarrow> bool" where
  "isSensitiveHeader name =
     (toLowerCase name \<in> set SENSITIVE_HEADERS
      \<or> (\<exists>p \<in> set SENSITIVE_HEADER_PREFIXES. startsWith (toLowerCase name) p))"

definition filterRequestHeaders :: "headers \<Rightarrow> headers" where
  "filterRequestHeaders hs = (\<lambda>name. if isSensitiveHeader name then None else hs name)"

text \<open>
  Modelled from the spec: the response-header whitelist (section 4.3), "only headers in
  these categories survive: \<open>content-*\<close>, \<open>access-control-allow-*\<close> and \<open>location\<close>",
  matched case-insensitively; the filter module is not among the sources.
\<close>

definition isWhitelistedResponseHeader :: "string \<Rightarrow> bool" where
  "isWhitelistedResponseHeader name =
     (startsWith (toLowerCase name) ''content-''
      \<or> startsWith (toLowerCase name) ''access-control-allow-''
      \<or> toLowerCase name = ''location'')"

definition filterResponseHeaders :: "headers \<Rightarrow> headers" where
  "filterResponseHeaders hs =
     (\<lambda>name. if isWhitelistedResponseHeader name then hs name else None)"

section \<open>The coordinator\<close>

text \<open>
  Modelled from the spec: \<open>services/idempotencyService.ts\<close> (the class
  \<open>IdempotencyService\<close> with \<open>provideMiddlewareFunction\<close>, \<open>isHit\<close>,
  \<open>extractIdempotencyKeyFromReq\<close> and the hook on \<open>send\<close>), the two default validators and
  the framework's request and response objects are not among the sources; only the
  tests of the service are. The definitions of this section follow sections 4.1, 4.2,
  4.4, 6 and 7 of the specification, with the in-memory adapter above as the resource
  store.

  The request and response handles carry what the coordinator reads and writes: the
  hit mark attached to the request object (absent until a processing sets it), and on
  the response the status code, the headers, the data sent (absent until sent) and
  the capture hook, which holds the resource it was installed for.
\<close>

record Request =
  req_url :: string
  req_method :: string
  req_headers :: headers
  req_body :: string
  req_query :: "(string \<times> string) list"
  idempotencyHit :: "bool option"

record Response =
  res_statusCode :: int
  res_headers :: headers
  res_data :: "string option"
  res_hook :: "IdempotencyResource option"

text \<open>
  Modelled from the spec: the recognised options (section 6), the header name and the two
  validators; the data adapter is the map of the in-memory adapter, passed explicitly.
  The declaration of the options is not among the sources.
\<close>

record IdempotencyOptions =
  idempotencyKeyHeader :: string
  intentValidator :: "Request \<Rightarrow> bool"
  responseValidator :: "IdempotencyResponse \<Rightarrow> bool"

text \<open>
  Modelled from the spec: the default policies (section 4.4), whose classes are not
  among the sources. The intent validator says yes to every request that carries a key;
  the response validator accepts the success class of status codes.
\<close>

definition defaultIntentValidator :: "Request \<Rightarrow> bool" where
  "defaultIntentValidator req = True"

definition successfulResponseValidator :: "IdempotencyResponse \<Rightarrow> bool" where
  "successfulResponseValidator res =
     (case statusCode res of None \<Rightarrow> False | Some code \<Rightarrow> 200 \<le> code \<and> code < 300)"

definition defaultOptions :: IdempotencyOptions where
  "defaultOptions =
     \<lparr>idempotencyKeyHeader = ''idempotency-key'',
      intentValidator = defaultIntentValidator,
      responseValidator = successfulResponseValidator\<rparr>"

text \<open>
  Modelled from the spec: what a processing hands on (sections 4.1 and 7); the service
  is not among the sources. \<open>Next None\<close> is the continuation invoked with no error,
  \<open>Next (Some e)\<close> the continuation invoked with the error \<open>e\<close>, and \<open>Rejected e\<close> a
  failure of the lookup, which aborts the processing. An outcome is that signal with the
  store, the request and the response as the processing leaves them.
\<close>

datatype signal = Next "error option" | Rejected error

record Outcome =
  adapter :: store
  req_after :: Request
  res_after :: Response
  signal :: signal

text \<open>
  Modelled from the spec: \<open>extractIdempotencyKeyFromReq(request) \<rightarrow> string | absent\<close>
  (sections 4.1 step 1 and 6), the value of the configured header; the service is not
  among the sources.
\<close>

definition extractIdempotencyKeyFromReq :: "IdempotencyOptions \<Rightarrow> Request \<Rightarrow> string option" where
  "extractIdempotencyKeyFromReq options req = req_headers req (idempotencyKeyHeader options)"

text \<open>
  Modelled from the spec: \<open>isHit(request) \<rightarrow> bool\<close> (section 4.1), the hit mark of this
  request object; the service is not among the sources.
\<close>

definition isHit :: "Request \<Rightarrow> bool" where
  "isHit req = (idempotencyHit req = Some True)"

text \<open>
  Modelled from the spec: the two states of a resource (section 3), "Pending: response
  absent or \<open>response.statusCode\<close> undefined (including a malformed/corrupted record)",
  "Completed: \<open>response.statusCode\<close> is defined".
\<close>

definition isPending :: "IdempotencyResource \<Rightarrow> bool" where
  "isPending resource =
     (case response resource of None \<Rightarrow> True | Some res \<Rightarrow> statusCode res = None)"

text \<open>
  Modelled from the spec: the request snapshot \<open>{method, url, headers (filtered), body,
  query}\<close> (sections 3 and 4.1 step 4); the service is not among the sources.
\<close>

definition requestSnapshot :: "Request \<Rightarrow> IdempotencyRequest" where
  "requestSnapshot req =
     \<lparr>url = req_url req, method = req_method req,
      headers = filterRequestHeaders (req_headers req),
      body = req_body req, query = req_query req\<rparr>"

text \<open>
  Modelled from the spec: the replay of section 4.1 step 6, "set the status code,
  re-apply only whitelisted headers, write the cached body"; the service is not among
  the sources. The headers are set over what the response already has.
\<close>

definition restoreResponse :: "int \<Rightarrow> IdempotencyResponse \<Rightarrow> Response \<Rightarrow> Response" where
  "restoreResponse code availableResponse res =
     res\<lparr>res_statusCode := code,
         res_headers := res_headers res ++ filterResponseHeaders (resp_headers availableResponse),
         res_data := Some (resp_body availableResponse)\<rparr>"

text \<open>
  Modelled from the spec: the algorithm of section 4.1, steps 1 to 6; the service is not
  among the sources. Step 1: no key, pass through, marked not a hit. Step 2: the intent
  validator's gate; a request it turns down is not subject to idempotency handling
  (section 2) and passes through like one without a key. Step 3: the lookup. Step 4: on
  a miss, create a Pending resource with the redacted snapshot; a creation that fails is
  treated as a Pending resource found; a creation that succeeds installs the capture
  hook, marks the request not a hit and goes on. Step 5: a Pending resource is a
  conflict. Step 6: a Completed resource with another method or URL is a misuse, and
  with the same ones a hit, replayed and marked. \<open>isHit\<close> "reports whether the most
  recent processing of this exact request object resolved via step 6", so every
  processing that does not end in the replay leaves the request marked not a hit,
  whatever mark an earlier processing left on it. Lookup and creation run one after the
  other with nothing in between.
\<close>

definition provideMiddlewareFunction ::
    "IdempotencyOptions \<Rightarrow> store \<Rightarrow> Request \<Rightarrow> Response \<Rightarrow> Outcome" where
  "provideMiddlewareFunction options s req res =
     (case extractIdempotencyKeyFromReq options req of
        None \<Rightarrow>
          \<lparr>adapter = s, req_after = req\<lparr>idempotencyHit := Some False\<rparr>, res_after = res,
           signal = Next None\<rparr>
      | Some key \<Rightarrow>
          if \<not> intentValidator options req then
            \<lparr>adapter = s, req_after = req\<lparr>idempotencyHit := Some False\<rparr>, res_after = res,
             signal = Next None\<rparr>
          else
            (case findByIdempotencyKey s key of
               Inl e \<Rightarrow>
                 \<lparr>adapter = s, req_after = req\<lparr>idempotencyHit := Some False\<rparr>,
                  res_after = res, signal = Rejected e\<rparr>
             | Inr None \<Rightarrow>
                 (let resource = \<lparr>idempotencyKey = key, request = requestSnapshot req,
                                  response = None\<rparr>
                  in case create s resource of
                       (Inl e, s') \<Rightarrow>
                         \<lparr>adapter = s', req_after = req\<lparr>idempotencyHit := Some False\<rparr>,
                          res_after = res, signal = Next (Some Conflict)\<rparr>
                     | (Inr u, s') \<Rightarrow>
                         \<lparr>adapter = s', req_after = req\<lparr>idempotencyHit := Some False\<rparr>,
                          res_after = res\<lparr>res_hook := Some resource\<rparr>,
                          signal = Next None\<rparr>)
             | Inr (Some resource) \<Rightarrow>
                 (case response resource of
                    None \<Rightarrow>
                      \<lparr>adapter = s, req_after = req\<lparr>idempotencyHit := Some False\<rparr>,
                       res_after = res, signal = Next (Some Conflict)\<rparr>
                  | Some availableResponse \<Rightarrow>
                      (case statusCode availableResponse of
                         None \<Rightarrow>
                           \<lparr>adapter = s, req_after = req\<lparr>idempotencyHit := Some False\<rparr>,
                            res_after = res, signal = Next (Some Conflict)\<rparr>
                       | Some code \<Rightarrow>
                           if method (request resource) \<noteq> req_method req
                              \<or> url (request resource) \<noteq> req_url req
                           then
                             \<lparr>adapter = s, req_after = req\<lparr>idempotencyHit := Some False\<rparr>,
                              res_after = res, signal = Next (Some Misuse)\<rparr>
                           else
                             \<lparr>adapter = s, req_after = req\<lparr>idempotencyHit := Some True\<rparr>,
                              res_after = restoreResponse code availableResponse res,
                              signal = Next None\<rparr>))))"

text \<open>
  Modelled from the spec: the response capture hook of section 4.2 on the finalisation
  of a response; the service is not among the sources. Without a hook the data is just
  sent. With one, status code, whitelisted headers and body are captured first; an
  eligible capture is stored by a whole-resource \<open>update\<close>, an ineligible one (or a
  failed update) releases the key by \<open>delete\<close>; a failure of the store is the first
  component of the result. The data is sent in every case, and the capture is taken as
  finished when \<open>send\<close> returns.
\<close>

definition send :: "IdempotencyOptions \<Rightarrow> store \<Rightarrow> Response \<Rightarrow> string
    \<Rightarrow> (error + unit) \<times> store \<times> Response" where
  "send options s res data =
     (case res_hook res of
        None \<Rightarrow> (Inr (), s, res\<lparr>res_data := Some data\<rparr>)
      | Some resource \<Rightarrow>
          (let captured = \<lparr>statusCode = Some (res_statusCode res),
                           resp_headers = filterResponseHeaders (res_headers res),
                           resp_body = data\<rparr>
           in if responseValidator options captured then
                (case update s (resource\<lparr>response := Some captured\<rparr>) of
                   (Inr u, s') \<Rightarrow> (Inr (), s', res\<lparr>res_data := Some data\<rparr>)
                 | (Inl e, s') \<Rightarrow>
                     (Inl e, snd (delete s' (idempotencyKey resource)),
                      res\<lparr>res_data := Some data\<rparr>))
              else
                (case delete s (idempotencyKey resource) of
                   (r, s') \<Rightarrow> (r, s', res\<lparr>res_data := Some data\<rparr>))))"

section \<open>Worked examples\<close>

text \<open>Concrete resources, requests and responses for the examples below.\<close>

definition order_request :: IdempotencyRequest where
  "order_request =
     \<lparr>url = ''/orders'', method = ''POST'',
      headers = [''idempotency-key'' \<mapsto> ''K1'', ''content-type'' \<mapsto> ''application/json''],
      body = ''{}'', query = []\<rparr>"

definition pending_K1 :: IdempotencyResource where
  "pending_K1 = \<lparr>idempotencyKey = ''K1'', request = order_request, response = None\<rparr>"

definition completed_K1 :: IdempotencyResource where
  "completed_K1 =
     \<lparr>idempotencyKey = ''K1'', request = order_request,
      response = Some \<lparr>statusCode = Some 201,
                       resp_headers = [''content-type'' \<mapsto> ''application/json''],
                       resp_body = ''{id:1}''\<rparr>\<rparr>"

definition pending_K2 :: IdempotencyResource where
  "pending_K2 = \<lparr>idempotencyKey = ''K2'', request = order_request, response = None\<rparr>"

definition order_post :: Request where
  "order_post =
     \<lparr>req_url = ''/orders'', req_method = ''POST'',
      req_headers = [''idempotency-key'' \<mapsto> ''K1'', ''content-type'' \<mapsto> ''application/json'',
                     ''Authorization'' \<mapsto> ''Bearer token'', ''x-auth-custom'' \<mapsto> ''secret''],
      req_body = ''{}'', req_query = [], idempotencyHit = None\<rparr>"

definition other_post :: Request where
  "other_post = order_post\<lparr>req_url := ''/other''\<rparr>"

definition keyless_get :: Request where
  "keyless_get =
     \<lparr>req_url = ''/orders'', req_method = ''GET'',
      req_headers = [''accept'' \<mapsto> ''application/json''],
      req_body = [], req_query = [], idempotencyHit = None\<rparr>"

definition fresh_response :: Response where
  "fresh_response =
     \<lparr>res_statusCode = 200, res_headers = Map.empty, res_data = None, res_hook = None\<rparr>"




section \<open>Properties of the in-memory data adapter\<close>

lemma example_keys:
  "idempotencyKey pending_K1 = ''K1''"
  "idempotencyKey completed_K1 = ''K1''"
  "idempotencyKey pending_K2 = ''K2''"
  by (simp_all add: pending_K1_def completed_K1_def pending_K2_def)

text \<open>
  Claim C4. \<open>create\<close> rejects exactly when the map already holds a resource under the
  key of the resource given; a rejected call leaves the whole map, and so the resource
  stored under that key, as it was; on a key that is free the call resolves and the map
  then holds the given resource under its key.
\<close>

theorem create_fails_iff_key_exists:
  "(isl (fst (create s r)) \<longleftrightarrow> s (idempotencyKey r) \<noteq> None)
   \<and> (s (idempotencyKey r) \<noteq> None \<longrightarrow>
        fst (create s r) = Inl Duplicate \<and> snd (create s r) = s
        \<and> snd (create s r) (idempotencyKey r) = s (idempotencyKey r))
   \<and> (s (idempotencyKey r) = None \<longrightarrow>
        fst (create s r) = Inr () \<and> snd (create s r) (idempotencyKey r) = Some r)"
  by (auto simp: create_def)

theorem create_fails_iff_key_exists_witness:
  "isl (fst (create (Map.empty(''K1'' \<mapsto> pending_K1)) completed_K1))
   \<and> fst (create (Map.empty(''K1'' \<mapsto> pending_K1)) completed_K1) = Inl Duplicate
   \<and> snd (create (Map.empty(''K1'' \<mapsto> pending_K1)) completed_K1) ''K1'' = Some pending_K1
   \<and> \<not> isl (fst (create Map.empty pending_K1))
   \<and> snd (create Map.empty pending_K1) ''K1'' = Some pending_K1"
  using create_fails_iff_key_exists [of "Map.empty(''K1'' \<mapsto> pending_K1)" completed_K1]
        create_fails_iff_key_exists [of Map.empty pending_K1]
  by (simp add: example_keys)

text \<open>
  Claim C7. \<open>delete\<close> always resolves, whether or not the map holds the key (on an
  absent key it leaves the map as it was); a lookup of the key after it finds nothing; a
  second \<open>delete\<close> of the same key resolves too and leaves the map the first one left.
\<close>

theorem delete_idempotent:
  "fst (delete s k) = Inr ()
   \<and> (s k = None \<longrightarrow> snd (delete s k) = s)
   \<and> findByIdempotencyKey (snd (delete s k)) k = Inr None
   \<and> fst (delete (snd (delete s k)) k) = Inr ()
   \<and> snd (delete (snd (delete s k)) k) = snd (delete s k)"
  by (auto simp: delete_def findByIdempotencyKey_def)

theorem delete_idempotent_witness:
  "fst (delete Map.empty ''K1'') = Inr ()
   \<and> snd (delete Map.empty ''K1'') = Map.empty
   \<and> findByIdempotencyKey (snd (delete (Map.empty(''K1'' \<mapsto> pending_K1)) ''K1'')) ''K1'' = Inr None
   \<and> snd (delete (snd (delete (Map.empty(''K1'' \<mapsto> pending_K1)) ''K1'')) ''K1'')
       = snd (delete (Map.empty(''K1'' \<mapsto> pending_K1)) ''K1'')"
  using delete_idempotent [of Map.empty "''K1''"]
        delete_idempotent [of "Map.empty(''K1'' \<mapsto> pending_K1)" "''K1''"]
  by simp

text \<open>
  A key that no call of a history writes is absent from the map the history leaves,
  provided it was absent before.
\<close>

lemma perform_other_key:
  "\<not> writes k op \<Longrightarrow> s k = None \<Longrightarrow> perform s op k = None"
  by (cases op) (auto simp: create_def update_def delete_def)

lemma foldl_perform_unwritten:
  "s k = None \<Longrightarrow> \<forall>op \<in> set ops. \<not> writes k op \<Longrightarrow> foldl perform s ops k = None"
proof (induction ops arbitrary: s)
  case Nil
  then show ?case by simp
next
  case (Cons op ops)
  from Cons.prems have "perform s op k = None"
    by (simp add: perform_other_key)
  with Cons.prems show ?case
    by (simp add: Cons.IH)
qed

text \<open>
  Claim C8. After a \<open>create\<close> that resolved, a lookup of the resource's key returns
  exactly that resource. A lookup returns nothing for a key that no call has stored a
  resource under (no \<open>create\<close> and no \<open>update\<close> of the history names it), and for a key
  that was deleted and not written since.
\<close>

theorem find_after_create:
  "(fst (create s r) = Inr () \<longrightarrow>
      findByIdempotencyKey (snd (create s r)) (idempotencyKey r) = Inr (Some r))
   \<and> ((\<forall>op \<in> set ops. \<not> writes k op) \<longrightarrow>
          findByIdempotencyKey (history ops) k = Inr None)
   \<and> ((\<forall>op \<in> set ops'. \<not> writes k op) \<longrightarrow>
          findByIdempotencyKey (history (ops @ Delete k # ops')) k = Inr None)"
proof (intro conjI impI)
  assume "fst (create s r) = Inr ()"
  then show "findByIdempotencyKey (snd (create s r)) (idempotencyKey r) = Inr (Some r)"
    by (auto simp: create_def findByIdempotencyKey_def split: if_splits)
next
  assume "\<forall>op \<in> set ops. \<not> writes k op"
  then have "foldl perform Map.empty ops k = None"
    by (intro foldl_perform_unwritten) simp_all
  then show "findByIdempotencyKey (history ops) k = Inr None"
    by (simp add: history_def findByIdempotencyKey_def)
next
  assume unwritten: "\<forall>op \<in> set ops'. \<not> writes k op"
  have "perform (foldl perform Map.empty ops) (Delete k) k = None"
    by (simp add: delete_def)
  then have "foldl perform (perform (foldl perform Map.empty ops) (Delete k)) ops' k = None"
    using unwritten by (rule foldl_perform_unwritten)
  then show "findByIdempotencyKey (history (ops @ Delete k # ops')) k = Inr None"
    by (simp add: history_def findByIdempotencyKey_def)
qed

theorem find_after_create_witness:
  "fst (create Map.empty pending_K1) = Inr ()
   \<and> findByIdempotencyKey (snd (create Map.empty pending_K1)) ''K1'' = Inr (Some pending_K1)
   \<and> findByIdempotencyKey (history [Create pending_K1, Update completed_K1]) ''K2'' = Inr None
   \<and> findByIdempotencyKey (history [Create pending_K1, Delete ''K1'', Create pending_K2]) ''K1''
       = Inr None"
proof -
  have created: "fst (create Map.empty pending_K1) = Inr ()"
    by (simp add: create_def)
  have never: "\<forall>op \<in> set [Create pending_K1, Update completed_K1]. \<not> writes ''K2'' op"
    by (simp add: example_keys)
  have since: "\<forall>op \<in> set [Create pending_K2]. \<not> writes ''K1'' op"
    by (simp add: example_keys)
  note first = find_after_create [where s = Map.empty and r = pending_K1 and k = "''K2''"
      and ops = "[Create pending_K1, Update completed_K1]" and ops' = "[]",
      unfolded example_keys]
  note second = find_after_create [where s = Map.empty and r = pending_K1 and k = "''K1''"
      and ops = "[Create pending_K1]" and ops' = "[Create pending_K2]",
      unfolded example_keys append.simps]
  from first created never second since show ?thesis
    by blast
qed

text \<open>
  Claim C9. A \<open>create\<close>, an \<open>update\<close> or a \<open>delete\<close> on one key leaves what the map
  holds under every other key (a resource, or nothing) as it was, whether the call
  resolves or rejects.
\<close>

theorem other_keys_unchanged:
  assumes "K1 \<noteq> K2" and "idempotencyKey r = K1"
  shows "snd (create s r) K2 = s K2
         \<and> snd (update s r) K2 = s K2
         \<and> snd (delete s K1) K2 = s K2
         \<and> findByIdempotencyKey (snd (create s r)) K2 = findByIdempotencyKey s K2
         \<and> findByIdempotencyKey (snd (update s r)) K2 = findByIdempotencyKey s K2
         \<and> findByIdempotencyKey (snd (delete s K1)) K2 = findByIdempotencyKey s K2"
  using assms by (simp add: create_def update_def delete_def findByIdempotencyKey_def)

theorem other_keys_unchanged_witness:
  "snd (create (Map.empty(''K2'' \<mapsto> pending_K2)) pending_K1) ''K2'' = Some pending_K2
   \<and> snd (update (Map.empty(''K2'' \<mapsto> pending_K2)) pending_K1) ''K2'' = Some pending_K2
   \<and> snd (delete (Map.empty(''K2'' \<mapsto> pending_K2)) ''K1'') ''K2'' = Some pending_K2"
  using other_keys_unchanged [of "''K1''" "''K2''" pending_K1 "Map.empty(''K2'' \<mapsto> pending_K2)"]
  by (simp add: example_keys)

text \<open>
  Claim C10. \<open>update\<close> always resolves and sets the key of the given resource to that
  resource: a lookup afterwards returns exactly it, whatever the map held under the key
  before, a resource or nothing.
\<close>

theorem update_is_upsert:
  "fst (update s r) = Inr ()
   \<and> findByIdempotencyKey (snd (update s r)) (idempotencyKey r) = Inr (Some r)
   \<and> snd (update s r) = s(idempotencyKey r \<mapsto> r)"
  by (simp add: update_def findByIdempotencyKey_def)

theorem update_is_upsert_witness:
  "fst (update Map.empty completed_K1) = Inr ()
   \<and> findByIdempotencyKey (snd (update Map.empty completed_K1)) ''K1'' = Inr (Some completed_K1)
   \<and> findByIdempotencyKey (snd (update (Map.empty(''K1'' \<mapsto> pending_K1)) completed_K1)) ''K1''
       = Inr (Some completed_K1)"
proof -
  note absent = update_is_upsert [of Map.empty completed_K1, unfolded example_keys]
  note present = update_is_upsert [of "Map.empty(''K1'' \<mapsto> pending_K1)" completed_K1,
      unfolded example_keys]
  from absent present show ?thesis
    by blast
qed

section \<open>Properties of the header filters and the coordinator\<close>

text \<open>The denylist and the prefixes of the request-header redaction, written out.\<close>

lemma isSensitiveHeader_iff:
  "isSensitiveHeader name \<longleftrightarrow>
     toLowerCase name \<in> {''authorization'', ''proxy-authorization'', ''cookie'', ''set-cookie'',
                          ''x-auth-token'', ''x-csrf-token'', ''x-xsrf-token'', ''x-api-key''}
     \<or> (\<exists>p \<in> {''x-auth-'', ''x-token-'', ''x-secret-'', ''x-key-''}.
            startsWith (toLowerCase name) p)"
  by (simp add: isSensitiveHeader_def SENSITIVE_HEADERS_def SENSITIVE_HEADER_PREFIXES_def)

text \<open>
  The outcome of a processing on a miss, and on a resource found, as one equation each:
  the case analysis of the coordinator with the lookup already done.
\<close>

lemma miss_outcome:
  assumes "extractIdempotencyKeyFromReq options req = Some K"
    and "intentValidator options req"
    and "findByIdempotencyKey s K = Inr None"
  shows "provideMiddlewareFunction options s req res =
     \<lparr>adapter = s(K \<mapsto> \<lparr>idempotencyKey = K, request = requestSnapshot req, response = None\<rparr>),
      req_after = req\<lparr>idempotencyHit := Some False\<rparr>,
      res_after = res\<lparr>res_hook := Some \<lparr>idempotencyKey = K, request = requestSnapshot req,
                                          response = None\<rparr>\<rparr>,
      signal = Next None\<rparr>"
  using assms
  by (simp add: provideMiddlewareFunction_def findByIdempotencyKey_def create_def dom_def Let_def)

lemma found_outcome:
  assumes "extractIdempotencyKeyFromReq options req = Some K"
    and "intentValidator options req"
    and "findByIdempotencyKey s K = Inr (Some resource)"
  shows "provideMiddlewareFunction options s req res =
     (case response resource of
        None \<Rightarrow>
          \<lparr>adapter = s, req_after = req\<lparr>idempotencyHit := Some False\<rparr>, res_after = res,
           signal = Next (Some Conflict)\<rparr>
      | Some availableResponse \<Rightarrow>
          (case statusCode availableResponse of
             None \<Rightarrow>
               \<lparr>adapter = s, req_after = req\<lparr>idempotencyHit := Some False\<rparr>,
                res_after = res, signal = Next (Some Conflict)\<rparr>
           | Some code \<Rightarrow>
               if method (request resource) \<noteq> req_method req
                  \<or> url (request resource) \<noteq> req_url req
               then \<lparr>adapter = s, req_after = req\<lparr>idempotencyHit := Some False\<rparr>,
                     res_after = res, signal = Next (Some Misuse)\<rparr>
               else \<lparr>adapter = s, req_after = req\<lparr>idempotencyHit := Some True\<rparr>,
                     res_after = restoreResponse code availableResponse res,
                     signal = Next None\<rparr>))"
  using assms
  by (simp add: provideMiddlewareFunction_def findByIdempotencyKey_def)

lemma restored_header:
  "res_headers (restoreResponse code cached res) name =
     (if isWhitelistedResponseHeader name \<and> resp_headers cached name \<noteq> None
      then resp_headers cached name else res_headers res name)"
  by (auto simp: restoreResponse_def filterResponseHeaders_def map_add_def split: option.splits)

lemma filterResponseHeaders_idem:
  "filterResponseHeaders (filterResponseHeaders hs) = filterResponseHeaders hs"
  by (auto simp: filterResponseHeaders_def)

text \<open>
  Claim C1. When the store holds, under the key of a request, a Completed resource (a
  response with a status code) whose snapshot has the request's method and URL, and the
  intent validator lets the request through, the processing is a cache hit: the
  continuation is invoked with no error, \<open>isHit\<close> is true of the request, and the
  outgoing response has the status code and the body of the stored response and, at
  every whitelisted header the stored response has, the stored value (its other headers
  stay as the response had them, so a response with no headers of its own ends with
  exactly the whitelisted headers of the stored response). The store is not written.
\<close>

theorem completed_same_request_is_hit:
  assumes key: "extractIdempotencyKeyFromReq options req = Some K"
    and intent: "intentValidator options req"
    and stored: "findByIdempotencyKey s K = Inr (Some resource)"
    and captured: "response resource = Some captured"
    and code: "statusCode captured = Some code"
    and same: "method (request resource) = req_method req" "url (request resource) = req_url req"
  shows "signal (provideMiddlewareFunction options s req res) = Next None
    \<and> isHit (req_after (provideMiddlewareFunction options s req res))
    \<and> res_statusCode (res_after (provideMiddlewareFunction options s req res)) = code
    \<and> res_data (res_after (provideMiddlewareFunction options s req res)) = Some (resp_body captured)
    \<and> (\<forall>name. res_headers (res_after (provideMiddlewareFunction options s req res)) name =
          (if isWhitelistedResponseHeader name \<and> resp_headers captured name \<noteq> None
           then resp_headers captured name else res_headers res name))
    \<and> (res_headers res = Map.empty \<longrightarrow>
          res_headers (res_after (provideMiddlewareFunction options s req res))
            = filterResponseHeaders (resp_headers captured))
    \<and> adapter (provideMiddlewareFunction options s req res) = s"
proof -
  from key intent stored captured code same
  have out: "provideMiddlewareFunction options s req res =
      \<lparr>adapter = s, req_after = req\<lparr>idempotencyHit := Some True\<rparr>,
       res_after = restoreResponse code captured res, signal = Next None\<rparr>"
    by (simp add: found_outcome)
  show ?thesis
    unfolding out by (simp add: isHit_def restored_header) (simp add: restoreResponse_def)
qed

theorem completed_same_request_is_hit_witness:
  "signal (provideMiddlewareFunction defaultOptions (Map.empty(''K1'' \<mapsto> completed_K1))
       order_post fresh_response) = Next None
   \<and> isHit (req_after (provideMiddlewareFunction defaultOptions
       (Map.empty(''K1'' \<mapsto> completed_K1)) order_post fresh_response))
   \<and> res_statusCode (res_after (provideMiddlewareFunction defaultOptions
       (Map.empty(''K1'' \<mapsto> completed_K1)) order_post fresh_response)) = 201
   \<and> res_data (res_after (provideMiddlewareFunction defaultOptions
       (Map.empty(''K1'' \<mapsto> completed_K1)) order_post fresh_response)) = Some ''{id:1}''
   \<and> res_headers (res_after (provideMiddlewareFunction defaultOptions
       (Map.empty(''K1'' \<mapsto> completed_K1)) order_post fresh_response)) ''content-type''
       = Some ''application/json''"
proof -
  let ?captured = "\<lparr>statusCode = Some 201,
      resp_headers = [''content-type'' \<mapsto> ''application/json''], resp_body = ''{id:1}''\<rparr>"
  have key: "extractIdempotencyKeyFromReq defaultOptions order_post = Some ''K1''"
    by (simp add: extractIdempotencyKeyFromReq_def defaultOptions_def order_post_def)
  have intent: "intentValidator defaultOptions order_post"
    by (simp add: defaultOptions_def defaultIntentValidator_def)
  have stored: "findByIdempotencyKey (Map.empty(''K1'' \<mapsto> completed_K1)) ''K1''
      = Inr (Some completed_K1)"
    by (simp add: findByIdempotencyKey_def)
  have captured: "response completed_K1 = Some ?captured"
    by (simp add: completed_K1_def)
  have code: "statusCode ?captured = Some 201"
    by simp
  have same: "method (request completed_K1) = req_method order_post"
      "url (request completed_K1) = req_url order_post"
    by (simp_all add: completed_K1_def order_request_def order_post_def)
  have listed: "isWhitelistedResponseHeader ''content-type''"
    by code_simp
  note hit = completed_same_request_is_hit [OF key intent stored captured code same,
      of fresh_response]
  from hit have "res_headers (res_after (provideMiddlewareFunction defaultOptions
       (Map.empty(''K1'' \<mapsto> completed_K1)) order_post fresh_response)) ''content-type''
       = Some ''application/json''"
    using listed by simp
  with hit show ?thesis
    by simp
qed

text \<open>
  The same from the first call on: a request on a fresh key is let through with the
  capture hook installed; the handler sets a status code and headers and sends a body;
  once the capture is accepted and stored, a second request with the same key, method
  and URL is answered with that status code, that body and the whitelisted ones of those
  headers.
\<close>

lemma capture_then_replay:
  assumes key: "extractIdempotencyKeyFromReq options req = Some K"
    and intent: "intentValidator options req"
    and miss: "findByIdempotencyKey s K = Inr None"
    and handled: "handled = (res_after (provideMiddlewareFunction options s req res))
                    \<lparr>res_statusCode := code, res_headers := hs\<rparr>"
    and valid: "responseValidator options
                  \<lparr>statusCode = Some code, resp_headers = filterResponseHeaders hs,
                   resp_body = data\<rparr>"
    and sent: "send options (adapter (provideMiddlewareFunction options s req res)) handled data
                 = (r, s2, res2)"
    and key': "extractIdempotencyKeyFromReq options req' = Some K"
    and intent': "intentValidator options req'"
    and same: "req_method req' = req_method req" "req_url req' = req_url req"
  shows "r = Inr ()"
    and "res_data res2 = Some data"
    and "provideMiddlewareFunction options s2 req' res' =
           \<lparr>adapter = s2, req_after = req'\<lparr>idempotencyHit := Some True\<rparr>,
            res_after = res'\<lparr>res_statusCode := code,
                              res_headers := res_headers res' ++ filterResponseHeaders hs,
                              res_data := Some data\<rparr>,
            signal = Next None\<rparr>"
proof -
  let ?captured = "\<lparr>statusCode = Some code, resp_headers = filterResponseHeaders hs,
                    resp_body = data\<rparr>"
  let ?resource = "\<lparr>idempotencyKey = K, request = requestSnapshot req,
                    response = Some ?captured\<rparr>"
  note first = miss_outcome [OF key intent miss, of res]
  from sent valid have results: "r = Inr ()" "s2 = s(K \<mapsto> ?resource)"
      "res2 = handled\<lparr>res_data := Some data\<rparr>"
    unfolding first handled by (simp_all add: send_def update_def Let_def)
  show "r = Inr ()" by fact
  show "res_data res2 = Some data" using results by simp
  have stored: "findByIdempotencyKey s2 K = Inr (Some ?resource)"
    using results by (simp add: findByIdempotencyKey_def)
  show "provideMiddlewareFunction options s2 req' res' =
           \<lparr>adapter = s2, req_after = req'\<lparr>idempotencyHit := Some True\<rparr>,
            res_after = res'\<lparr>res_statusCode := code,
                              res_headers := res_headers res' ++ filterResponseHeaders hs,
                              res_data := Some data\<rparr>,
            signal = Next None\<rparr>"
    using same
    by (simp add: found_outcome [OF key' intent' stored] requestSnapshot_def restoreResponse_def
        filterResponseHeaders_idem)
qed

text \<open>
  The example of section 8 of the specification, run on the model: key \<open>K1\<close>, request
  \<open>POST /orders\<close>, the handler answers \<open>201 {id:1}\<close> with a content type and an entity
  tag. The replay of \<open>K1\<close> with \<open>POST /orders\<close> returns \<open>201 {id:1}\<close> with the content
  type and without the entity tag; the replay with \<open>POST /other\<close> is a misuse; the replay
  before the handler has answered is a conflict.
\<close>

lemma replay_example:
  "(let first = provideMiddlewareFunction defaultOptions Map.empty order_post fresh_response;
        handled = (res_after first)\<lparr>res_statusCode := 201,
                     res_headers := [''content-type'' \<mapsto> ''application/json'', ''etag'' \<mapsto> ''abc'']\<rparr>
    in case send defaultOptions (adapter first) handled ''{id:1}'' of
         (r, s2, res2) \<Rightarrow>
           (let second = provideMiddlewareFunction defaultOptions s2 order_post fresh_response;
                other = provideMiddlewareFunction defaultOptions s2 other_post fresh_response;
                early = provideMiddlewareFunction defaultOptions (adapter first) order_post
                          fresh_response
            in r = Inr () \<and> signal second = Next None \<and> isHit (req_after second)
               \<and> res_statusCode (res_after second) = 201
               \<and> res_data (res_after second) = Some ''{id:1}''
               \<and> res_headers (res_after second) ''content-type'' = Some ''application/json''
               \<and> res_headers (res_after second) ''etag'' = None
               \<and> signal other = Next (Some Misuse)
               \<and> signal early = Next (Some Conflict)))"
  by code_simp




text \<open>
  Claim C3. When the store holds a Completed resource under the key of a request whose
  method or URL differs from the stored snapshot's, the processing invokes the
  continuation with the misuse error, which is not the conflict error; nothing is
  replayed onto the response, the request is left as it was but for its mark, which
  says not a hit, and the store is not written.
\<close>

theorem completed_other_request_is_misuse:
  assumes key: "extractIdempotencyKeyFromReq options req = Some K"
    and intent: "intentValidator options req"
    and stored: "findByIdempotencyKey s K = Inr (Some resource)"
    and completed: "\<not> isPending resource"
    and differs: "method (request resource) \<noteq> req_method req
                  \<or> url (request resource) \<noteq> req_url req"
  shows "signal (provideMiddlewareFunction options s req res) = Next (Some Misuse)
    \<and> Misuse \<noteq> Conflict
    \<and> res_after (provideMiddlewareFunction options s req res) = res
    \<and> req_after (provideMiddlewareFunction options s req res)
        = req\<lparr>idempotencyHit := Some False\<rparr>
    \<and> \<not> isHit (req_after (provideMiddlewareFunction options s req res))
    \<and> adapter (provideMiddlewareFunction options s req res) = s"
proof -
  note found = found_outcome [OF key intent stored]
  from completed
  obtain captured code where "response resource = Some captured" "statusCode captured = Some code"
    by (auto simp: isPending_def split: option.splits)
  with differs have "provideMiddlewareFunction options s req res =
      \<lparr>adapter = s, req_after = req\<lparr>idempotencyHit := Some False\<rparr>, res_after = res,
       signal = Next (Some Misuse)\<rparr>"
    by (auto simp: found)
  then show ?thesis by (simp add: isHit_def)
qed

theorem completed_other_request_is_misuse_witness:
  "\<not> isPending completed_K1
   \<and> url (request completed_K1) \<noteq> req_url other_post
   \<and> signal (provideMiddlewareFunction defaultOptions (Map.empty(''K1'' \<mapsto> completed_K1))
        other_post fresh_response) = Next (Some Misuse)
   \<and> res_after (provideMiddlewareFunction defaultOptions
        (Map.empty(''K1'' \<mapsto> completed_K1)) other_post fresh_response) = fresh_response"
proof -
  have key: "extractIdempotencyKeyFromReq defaultOptions other_post = Some ''K1''"
    by (simp add: extractIdempotencyKeyFromReq_def defaultOptions_def other_post_def
        order_post_def)
  have intent: "intentValidator defaultOptions other_post"
    by (simp add: defaultOptions_def defaultIntentValidator_def)
  have stored: "findByIdempotencyKey (Map.empty(''K1'' \<mapsto> completed_K1)) ''K1''
      = Inr (Some completed_K1)"
    by (simp add: findByIdempotencyKey_def)
  have completed: "\<not> isPending completed_K1"
    by (simp add: isPending_def completed_K1_def)
  have differs: "url (request completed_K1) \<noteq> req_url other_post"
    by (simp add: completed_K1_def order_request_def other_post_def)
  then have "method (request completed_K1) \<noteq> req_method other_post
      \<or> url (request completed_K1) \<noteq> req_url other_post"
    by simp
  from completed_other_request_is_misuse [OF key intent stored completed this,
      of fresh_response] completed differs
  show ?thesis
    by simp
qed

text \<open>
  Claim C5. A request without the configured key header passes through: the
  continuation is invoked with no error, \<open>isHit\<close> is false of the request, the response
  is untouched, and the store is neither written nor read (it is returned as it was,
  and the rest of the outcome is the same for every store).
\<close>

theorem no_key_passes_through:
  assumes "req_headers req (idempotencyKeyHeader options) = None"
  shows "signal (provideMiddlewareFunction options s req res) = Next None
    \<and> adapter (provideMiddlewareFunction options s req res) = s
    \<and> res_after (provideMiddlewareFunction options s req res) = res
    \<and> \<not> isHit (req_after (provideMiddlewareFunction options s req res))
    \<and> extractIdempotencyKeyFromReq options req = None
    \<and> provideMiddlewareFunction options s' req res =
        (provideMiddlewareFunction options s req res)\<lparr>adapter := s'\<rparr>"
  using assms
  by (simp add: provideMiddlewareFunction_def extractIdempotencyKeyFromReq_def isHit_def)

theorem no_key_passes_through_witness:
  "req_headers keyless_get (idempotencyKeyHeader defaultOptions) = None
   \<and> signal (provideMiddlewareFunction defaultOptions (Map.empty(''K1'' \<mapsto> completed_K1))
        keyless_get fresh_response) = Next None
   \<and> adapter (provideMiddlewareFunction defaultOptions (Map.empty(''K1'' \<mapsto> completed_K1))
        keyless_get fresh_response) = Map.empty(''K1'' \<mapsto> completed_K1)
   \<and> \<not> isHit (req_after (provideMiddlewareFunction defaultOptions
        (Map.empty(''K1'' \<mapsto> completed_K1)) keyless_get fresh_response))"
proof -
  have absent: "req_headers keyless_get (idempotencyKeyHeader defaultOptions) = None"
    by (simp add: keyless_get_def defaultOptions_def)
  from no_key_passes_through [OF absent, where s = "Map.empty(''K1'' \<mapsto> completed_K1)"
      and res = fresh_response and s' = Map.empty] absent
  show ?thesis
    by blast
qed

text \<open>
  Claim C6. On a cache miss the resource stored under the key holds a request snapshot
  in which no header appears whose lower-cased name is on the denylist or starts with
  one of the four prefixes, and every other header of the request appears with the
  value the request has for it.
\<close>

theorem stored_snapshot_redacted:
  assumes key: "extractIdempotencyKeyFromReq options req = Some K"
    and intent: "intentValidator options req"
    and miss: "findByIdempotencyKey s K = Inr None"
  shows "\<exists>resource.
      findByIdempotencyKey (adapter (provideMiddlewareFunction options s req res)) K
        = Inr (Some resource)
      \<and> (\<forall>name. headers (request resource) name =
           (if toLowerCase name \<in> {''authorization'', ''proxy-authorization'', ''cookie'',
                  ''set-cookie'', ''x-auth-token'', ''x-csrf-token'', ''x-xsrf-token'',
                  ''x-api-key''}
               \<or> (\<exists>p \<in> {''x-auth-'', ''x-token-'', ''x-secret-'', ''x-key-''}.
                      startsWith (toLowerCase name) p)
            then None else req_headers req name))"
proof -
  from key intent miss
  have "findByIdempotencyKey (adapter (provideMiddlewareFunction options s req res)) K
      = Inr (Some \<lparr>idempotencyKey = K, request = requestSnapshot req, response = None\<rparr>)"
    by (simp add: miss_outcome findByIdempotencyKey_def)
  moreover have "headers (requestSnapshot req) name =
      (if toLowerCase name \<in> {''authorization'', ''proxy-authorization'', ''cookie'',
             ''set-cookie'', ''x-auth-token'', ''x-csrf-token'', ''x-xsrf-token'',
             ''x-api-key''}
          \<or> (\<exists>p \<in> {''x-auth-'', ''x-token-'', ''x-secret-'', ''x-key-''}.
                 startsWith (toLowerCase name) p)
       then None else req_headers req name)" for name
    unfolding requestSnapshot_def filterRequestHeaders_def isSensitiveHeader_iff by simp
  ultimately show ?thesis by simp
qed

theorem stored_snapshot_redacted_witness:
  "\<exists>resource.
     findByIdempotencyKey (adapter (provideMiddlewareFunction defaultOptions Map.empty
         order_post fresh_response)) ''K1'' = Inr (Some resource)
     \<and> headers (request resource) ''Authorization'' = None
     \<and> headers (request resource) ''x-auth-custom'' = None
     \<and> headers (request resource) ''content-type'' = Some ''application/json''
     \<and> headers (request resource) ''idempotency-key'' = Some ''K1''"
proof -
  have key: "extractIdempotencyKeyFromReq defaultOptions order_post = Some ''K1''"
    by (simp add: extractIdempotencyKeyFromReq_def defaultOptions_def order_post_def)
  have intent: "intentValidator defaultOptions order_post"
    by (simp add: defaultOptions_def defaultIntentValidator_def)
  have miss: "findByIdempotencyKey Map.empty ''K1'' = Inr None"
    by (simp add: findByIdempotencyKey_def)
  have lower: "toLowerCase ''Authorization'' = ''authorization''"
      "toLowerCase ''x-auth-custom'' = ''x-auth-custom''"
      "toLowerCase ''content-type'' = ''content-type''"
      "toLowerCase ''idempotency-key'' = ''idempotency-key''"
    by code_simp+
  from stored_snapshot_redacted [OF key intent miss, of fresh_response]
  obtain resource where
    found: "findByIdempotencyKey (adapter (provideMiddlewareFunction defaultOptions Map.empty
         order_post fresh_response)) ''K1'' = Inr (Some resource)"
    and kept: "\<And>name. headers (request resource) name =
           (if toLowerCase name \<in> {''authorization'', ''proxy-authorization'', ''cookie'',
                  ''set-cookie'', ''x-auth-token'', ''x-csrf-token'', ''x-xsrf-token'',
                  ''x-api-key''}
               \<or> (\<exists>p \<in> {''x-auth-'', ''x-token-'', ''x-secret-'', ''x-key-''}.
                      startsWith (toLowerCase name) p)
            then None else req_headers order_post name)"
    by blast
  have "headers (request resource) ''Authorization'' = None"
    by (simp add: kept lower)
  moreover have "headers (request resource) ''x-auth-custom'' = None"
    by (simp add: kept lower startsWith_def)
  moreover have "headers (request resource) ''content-type'' = Some ''application/json''"
    by (simp add: kept lower startsWith_def order_post_def)
  moreover have "headers (request resource) ''idempotency-key'' = Some ''K1''"
    by (simp add: kept lower startsWith_def order_post_def)
  ultimately show ?thesis
    using found by blast
qed

end
